theory Spec2Isabelle
  imports Complex_Main "HOL-Library.Option_ord" "HOL-Library.Product_Lexorder"
begin

section \<open>Bronze to Silver pipeline of the supply chain fact table\<close>

text \<open>
  The two scripts \<^verbatim>\<open>Project_Batch_Process.py\<close> and \<^verbatim>\<open>Project_Single_File.py\<close> run the
  same chain of Polars expressions over a data frame. A data frame is modelled as the list
  of its rows and a row as a record of its columns; every \<^verbatim>\<open>with_columns\<close> block is a
  function that computes the new columns of a row (or of the whole table for the window
  expressions), and the library calls are modelled by their documented behaviour in the
  Polars 0.20 line, the line in which the scripts run as written (a string handed to
  \<^verbatim>\<open>then\<close>/\<^verbatim>\<open>otherwise\<close> is a literal, \<^verbatim>\<open>count\<close> counts non-null values, null join keys
  match nothing, \<^verbatim>\<open>str.replace\<close> takes a regular expression and replaces its first
  match).
\<close>

subsection \<open>Values: nulls and floating point numbers\<close>

text \<open>
  A column value is \<open>None\<close> when it is null. A Float64 is a finite number, one of the two
  infinities, or NaN. The special values follow IEEE 754. Finite arithmetic is exact:
  rounding and overflow to infinity are not modelled, and neither is the sign of a zero
  (a zero divisor is read as \<open>+0.0\<close>).
\<close>

datatype f64 = Fin rat | PInf | NInf | NaN

fun f64_add :: "f64 \<Rightarrow> f64 \<Rightarrow> f64" where
  "f64_add (Fin a) (Fin b) = Fin (a + b)"
| "f64_add (Fin a) PInf = PInf"
| "f64_add (Fin a) NInf = NInf"
| "f64_add PInf (Fin b) = PInf"
| "f64_add NInf (Fin b) = NInf"
| "f64_add PInf PInf = PInf"
| "f64_add NInf NInf = NInf"
| "f64_add PInf NInf = NaN"
| "f64_add NInf PInf = NaN"
| "f64_add NaN y = NaN"
| "f64_add x NaN = NaN"

fun f64_neg :: "f64 \<Rightarrow> f64" where
  "f64_neg (Fin a) = Fin (- a)"
| "f64_neg PInf = NInf"
| "f64_neg NInf = PInf"
| "f64_neg NaN = NaN"

definition f64_sub :: "f64 \<Rightarrow> f64 \<Rightarrow> f64" where
  "f64_sub x y = f64_add x (f64_neg y)"

text \<open>An infinity with the sign of a nonzero finite number, NaN for zero.\<close>

definition signed_inf :: "rat \<Rightarrow> f64" where
  "signed_inf a = (if a = 0 then NaN else if 0 < a then PInf else NInf)"

fun f64_mul :: "f64 \<Rightarrow> f64 \<Rightarrow> f64" where
  "f64_mul (Fin a) (Fin b) = Fin (a * b)"
| "f64_mul (Fin a) PInf = signed_inf a"
| "f64_mul (Fin a) NInf = signed_inf (- a)"
| "f64_mul PInf (Fin b) = signed_inf b"
| "f64_mul NInf (Fin b) = signed_inf (- b)"
| "f64_mul PInf PInf = PInf"
| "f64_mul NInf NInf = PInf"
| "f64_mul PInf NInf = NInf"
| "f64_mul NInf PInf = NInf"
| "f64_mul NaN y = NaN"
| "f64_mul x NaN = NaN"

fun f64_div :: "f64 \<Rightarrow> f64 \<Rightarrow> f64" where
  "f64_div (Fin a) (Fin b) = (if b = 0 then signed_inf a else Fin (a / b))"
| "f64_div (Fin a) PInf = Fin 0"
| "f64_div (Fin a) NInf = Fin 0"
| "f64_div PInf (Fin b) = (if b < 0 then NInf else PInf)"
| "f64_div NInf (Fin b) = (if b < 0 then PInf else NInf)"
| "f64_div PInf PInf = NaN"
| "f64_div NInf NInf = NaN"
| "f64_div PInf NInf = NaN"
| "f64_div NInf PInf = NaN"
| "f64_div NaN y = NaN"
| "f64_div x NaN = NaN"

text \<open>
  Comparison with Polars' order on floats: NaN is equal to itself and above every other
  value. The scripts only compare a column with a finite literal.
\<close>

fun f64_lt :: "f64 \<Rightarrow> f64 \<Rightarrow> bool" where
  "f64_lt (Fin a) (Fin b) = (a < b)"
| "f64_lt x NInf = False"
| "f64_lt NInf y = True"
| "f64_lt NaN y = False"
| "f64_lt x NaN = True"
| "f64_lt PInf y = False"
| "f64_lt x PInf = True"

definition f64_le :: "f64 \<Rightarrow> f64 \<Rightarrow> bool" where
  "f64_le x y = (x = y \<or> f64_lt x y)"

text \<open>An Int64 column value used in float arithmetic is cast to Float64.\<close>

definition to_f64 :: "int \<Rightarrow> f64" where
  "to_f64 n = Fin (of_int n)"

text \<open>Int64 arithmetic wraps around.\<close>

definition wrap_i64 :: "int \<Rightarrow> int" where
  "wrap_i64 n = (n + 2 ^ 63) mod 2 ^ 64 - 2 ^ 63"

definition i64_sub :: "int \<Rightarrow> int \<Rightarrow> int" where
  "i64_sub a b = wrap_i64 (a - b)"

text \<open>A binary operator of an expression yields null as soon as one operand is null.\<close>

fun null_op :: "('a \<Rightarrow> 'b \<Rightarrow> 'c) \<Rightarrow> 'a option \<Rightarrow> 'b option \<Rightarrow> 'c option" where
  "null_op f (Some x) (Some y) = Some (f x y)"
| "null_op f None y = None"
| "null_op f x None = None"

text \<open>\<^verbatim>\<open>fill_nan(v)\<close> replaces NaN by \<open>v\<close>; infinities and nulls are left as they are.\<close>

fun fill_nan :: "f64 \<Rightarrow> f64 option \<Rightarrow> f64 option" where
  "fill_nan v (Some NaN) = Some v"
| "fill_nan v x = x"

text \<open>
  \<^verbatim>\<open>pl.when(c).then(v)\<close> followed by the rest of the chain: the branch is taken when the
  condition is true; a false and a null condition both fall through.
\<close>

definition when_then :: "bool option \<Rightarrow> 'a \<Rightarrow> 'a \<Rightarrow> 'a" where
  "when_then c v rest = (if c = Some True then v else rest)"

subsection \<open>Strings: \<^verbatim>\<open>str.replace\<close>\<close>

text \<open>
  The CSV is read as cp1252, one byte per character, so a string is a list of 8-bit
  characters. \<^verbatim>\<open>str.replace(pattern, value)\<close> reads the pattern as a regular expression
  and replaces its leftmost match only. The patterns of the scripts consist of literal
  characters and of the dot, which matches every character but the line feed.
\<close>

datatype pat_item = Lit char | AnyChar

fun regex_of :: "string \<Rightarrow> pat_item list" where
  "regex_of [] = []"
| "regex_of (c # cs) = (if c = CHR ''.'' then AnyChar else Lit c) # regex_of cs"

fun item_matches :: "pat_item \<Rightarrow> char \<Rightarrow> bool" where
  "item_matches (Lit c) d = (c = d)"
| "item_matches AnyChar d = (d \<noteq> CHR 0x0A)"

text \<open>\<open>match_prefix p s\<close> is the rest of \<open>s\<close> behind a match of \<open>p\<close> at its start.\<close>

fun match_prefix :: "pat_item list \<Rightarrow> string \<Rightarrow> string option" where
  "match_prefix [] s = Some s"
| "match_prefix (p # ps) [] = None"
| "match_prefix (p # ps) (c # cs) = (if item_matches p c then match_prefix ps cs else None)"

fun replace_first :: "pat_item list \<Rightarrow> string \<Rightarrow> string \<Rightarrow> string" where
  "replace_first p v [] = (case match_prefix p [] of Some r \<Rightarrow> v @ r | None \<Rightarrow> [])"
| "replace_first p v (c # cs) =
     (case match_prefix p (c # cs) of Some r \<Rightarrow> v @ r | None \<Rightarrow> c # replace_first p v cs)"

definition str_replace :: "string \<Rightarrow> string \<Rightarrow> string option \<Rightarrow> string option" where
  "str_replace pattern v s = map_option (replace_first (regex_of pattern) v) s"

subsection \<open>Calendar dates\<close>

text \<open>
  \<^verbatim>\<open>pl.format("{}-{}-{}", year, month, day).str.to_date("%Y-%m-%d", strict=False)\<close> is
  null when a part is null or when the three numbers are no date of the Gregorian
  calendar (years written without a sign, 0 to 9999); \<^verbatim>\<open>pl.date(year, month, day)\<close> is
  read the same way.
\<close>

type_synonym date = "int \<times> int \<times> int"

definition leap_year :: "int \<Rightarrow> bool" where
  "leap_year y = (y mod 4 = 0 \<and> (y mod 100 \<noteq> 0 \<or> y mod 400 = 0))"

definition days_in_month :: "int \<Rightarrow> int \<Rightarrow> int" where
  "days_in_month y m =
     (if m = 2 then (if leap_year y then 29 else 28)
      else if m = 4 \<or> m = 6 \<or> m = 9 \<or> m = 11 then 30 else 31)"

definition valid_date :: "int \<Rightarrow> int \<Rightarrow> int \<Rightarrow> bool" where
  "valid_date y m d =
     (0 \<le> y \<and> y \<le> 9999 \<and> 1 \<le> m \<and> m \<le> 12 \<and> 1 \<le> d \<and> d \<le> days_in_month y m)"

fun to_date :: "int option \<Rightarrow> int option \<Rightarrow> int option \<Rightarrow> date option" where
  "to_date (Some y) (Some m) (Some d) = (if valid_date y m d then Some (y, m, d) else None)"
| "to_date y m d = None"

text \<open>The day of the week, 0 for Sunday, and its English name (\<^verbatim>\<open>strftime("%A")\<close>).\<close>

definition month_offset :: "int \<Rightarrow> int" where
  "month_offset m = [0, 3, 2, 5, 0, 3, 5, 1, 4, 6, 2, 4] ! nat (m - 1)"

definition day_of_week :: "date \<Rightarrow> int" where
  "day_of_week dt =
     (case dt of (y, m, d) \<Rightarrow>
        let y' = (if m < 3 then y - 1 else y)
        in (y' + y' div 4 - y' div 100 + y' div 400 + month_offset m + d) mod 7)"

definition day_name :: "date \<Rightarrow> string" where
  "day_name dt =
     [''Sunday'', ''Monday'', ''Tuesday'', ''Wednesday'', ''Thursday'', ''Friday'',
      ''Saturday''] ! nat (day_of_week dt)"

subsection \<open>Rows\<close>

text \<open>
  The columns of the source file that reach the output (\<open>other_columns\<close> holds the
  columns no expression names, such as \<^verbatim>\<open>type\<close> or \<^verbatim>\<open>order_status\<close>), then the natural
  keys that the joins consume, then the two columns dropped after deduplication. The
  column types are those \<^verbatim>\<open>read_csv\<close> infers for the order files: Float64 for the price,
  the discount rate and the profit ratio, Int64 for the date parts, the quantity and the
  shipping days, strings for the rest.
\<close>

record fact_source =
  order_year :: "int option"
  order_month :: "int option"
  order_day :: "int option"
  order_item_product_price :: "f64 option"
  order_item_quantity :: "int option"
  order_item_discount_rate :: "f64 option"
  order_item_profit_ratio :: "f64 option"
  days_for_shipping_real :: "int option"
  days_for_shipment_scheduled :: "int option"
  other_columns :: "string option list"

record clean_row = fact_source +
  order_state :: "string option"
  order_country :: "string option"
  order_region :: "string option"
  market :: "string option"
  customer_state :: "string option"
  customer_country :: "string option"
  product_name :: "string option"
  category_name :: "string option"
  department_name :: "string option"

record raw_row = clean_row +
  order_dayofweek :: "int option"
  shipping_mode :: "string option"

text \<open>The columns added by step 3, by the two blocks of step 4 and by step 5.\<close>

record financials =
  gross_sales :: "f64 option"
  discount_amount :: "f64 option"
  net_revenue :: "f64 option"
  order_profit_amount :: "f64 option"
  total_cost :: "f64 option"

record operational =
  actual_unit_cost :: "f64 option"
  is_profit_bleeder :: "bool option"
  shipping_delta :: "int option"
  markup_pct :: "f64 option"
  margin_leakage_pct :: "f64 option"

record segments =
  delivery_class :: string
  shipping_mode_clean :: string
  day_name_str :: "string option"
  order_day_type :: string
  price_segment :: string
  trade_route :: "string option"

record window_metrics =
  category_share_pct :: "f64 option"
  state_order_count :: nat
  market_share_pct :: "f64 option"
  state_density_class :: string

record 's derived_row =
  src :: 's
  fin :: financials
  ops :: operational
  seg :: segments

record 's windowed_row = "'s derived_row" +
  win :: window_metrics

subsection \<open>Step 3: financial metric derivation\<close>

definition financial_metrics :: "clean_row \<Rightarrow> financials" where
  "financial_metrics r =
     (let price = order_item_product_price r;
          quantity = map_option to_f64 (order_item_quantity r);
          gs = null_op f64_mul price quantity;
          da = null_op f64_mul (null_op f64_mul price quantity) (order_item_discount_rate r);
          nr = null_op f64_sub gs da;
          pa = null_op f64_mul nr (order_item_profit_ratio r);
          tc = null_op f64_sub nr pa
      in \<lparr>gross_sales = gs, discount_amount = da, net_revenue = nr,
          order_profit_amount = pa, total_cost = tc\<rparr>)"

subsection \<open>Step 4: operational and strategic features\<close>

text \<open>The division behind \<^verbatim>\<open>margin_leakage_pct\<close>, and the column with its NaN guard.\<close>

definition leakage_ratio :: "f64 option \<Rightarrow> f64 option \<Rightarrow> f64 option" where
  "leakage_ratio da pa = null_op f64_div da (null_op f64_add pa da)"

definition margin_leakage :: "f64 option \<Rightarrow> f64 option \<Rightarrow> f64 option" where
  "margin_leakage da pa = fill_nan (Fin 0) (leakage_ratio da pa)"

definition operational_features :: "clean_row \<Rightarrow> financials \<Rightarrow> operational" where
  "operational_features r f =
     (let auc = null_op f64_div (total_cost f) (map_option to_f64 (order_item_quantity r))
      in \<lparr>actual_unit_cost = auc,
          is_profit_bleeder = null_op f64_lt (order_profit_amount f) (Some (Fin 0)),
          shipping_delta =
            null_op i64_sub (days_for_shipping_real r) (days_for_shipment_scheduled r),
          markup_pct =
            null_op f64_div (null_op f64_sub (order_item_product_price r) auc) auc,
          margin_leakage_pct = margin_leakage (discount_amount f) (order_profit_amount f)\<rparr>)"

definition delivery_class_of :: "int option \<Rightarrow> string" where
  "delivery_class_of delta =
     when_then (null_op (<) delta (Some 0)) ''Early''
       (when_then (null_op (=) delta (Some 0)) ''On Time'' ''Late'')"

definition shipping_mode_clean_of :: "int option \<Rightarrow> string" where
  "shipping_mode_clean_of scheduled =
     when_then (null_op (=) scheduled (Some 0)) ''Same Day''
       (when_then (null_op (\<le>) scheduled (Some 2)) ''First Class''
         (when_then (null_op (=) scheduled (Some 3)) ''Second Class'' ''Standard Class''))"

definition order_day_type_of :: "string option \<Rightarrow> string" where
  "order_day_type_of name =
     when_then (map_option (\<lambda>n. n \<in> set [''Saturday'', ''Sunday'']) name)
       ''Weekend'' ''Weekday''"

definition price_segment_of :: "f64 option \<Rightarrow> string" where
  "price_segment_of price =
     when_then (null_op f64_lt price (Some (Fin 60))) ''Budget''
       (when_then (null_op f64_le price (Some (Fin 250))) ''Mainstream'' ''Premium'')"

definition trade_route_of ::
  "string option \<Rightarrow> string option \<Rightarrow> string option \<Rightarrow> string option" where
  "trade_route_of country state destination =
     null_op (@)
       (null_op (@)
         (null_op (@)
           (null_op (@) (str_replace ''EE. UU.'' ''USA'' country) (Some ''_''))
           state)
         (Some '' -> ''))
       destination"

definition segmentation :: "clean_row \<Rightarrow> operational \<Rightarrow> segments" where
  "segmentation r p =
     (let name = map_option day_name (to_date (order_year r) (order_month r) (order_day r))
      in \<lparr>delivery_class = delivery_class_of (shipping_delta p),
          shipping_mode_clean = shipping_mode_clean_of (days_for_shipment_scheduled r),
          day_name_str = name,
          order_day_type = order_day_type_of name,
          price_segment = price_segment_of (order_item_product_price r),
          trade_route =
            trade_route_of (customer_country r) (customer_state r) (order_country r)\<rparr>)"

definition derive :: "clean_row \<Rightarrow> clean_row derived_row" where
  "derive r =
     (let f = financial_metrics r; p = operational_features r f
      in \<lparr>src = r, fin = f, ops = p, seg = segmentation r p\<rparr>)"

text \<open>
  The normalisation as the specification words it: the one value \<^verbatim>\<open>EE. UU.\<close> becomes
  \<^verbatim>\<open>USA\<close>, every other value passes through.
\<close>

definition spec_normalize :: "string \<Rightarrow> string" where
  "spec_normalize c = (if c = ''EE. UU.'' then ''USA'' else c)"

subsection \<open>Step 2: validation, deduplication, column pruning\<close>

definition valid_date_check :: "raw_row \<Rightarrow> date option" where
  "valid_date_check r = to_date (order_year r) (order_month r) (order_day r)"

definition validate :: "raw_row list \<Rightarrow> (raw_row \<times> date option) list" where
  "validate t = filter (\<lambda>x. snd x \<noteq> None) (map (\<lambda>r. (r, valid_date_check r)) t)"

text \<open>
  \<^verbatim>\<open>df.unique(maintain_order=True)\<close> compares whole rows and keeps the first row of every
  group of equal rows, at its place.
\<close>

fun unique_from :: "'a list \<Rightarrow> 'a list \<Rightarrow> 'a list" where
  "unique_from seen [] = []"
| "unique_from seen (x # xs) =
     (if x \<in> set seen then unique_from seen xs else x # unique_from (x # seen) xs)"

definition unique :: "'a list \<Rightarrow> 'a list" where
  "unique t = unique_from [] t"

text \<open>Dropping \<^verbatim>\<open>order_dayofweek\<close>, \<^verbatim>\<open>valid_date_check\<close> and \<^verbatim>\<open>shipping_mode\<close>.\<close>

definition drop_helper_columns :: "raw_row \<times> date option \<Rightarrow> clean_row" where
  "drop_helper_columns x = clean_row.truncate (fst x)"

definition clean :: "raw_row list \<Rightarrow> clean_row list" where
  "clean t = map drop_helper_columns (unique (validate t))"

subsection \<open>Step 5: contextual window metrics\<close>

text \<open>
  \<^verbatim>\<open>sum()\<close> skips nulls. A partition without a non-null value has the sum 0 here; the
  shares of its rows are null whatever the sum is, since their numerators are null.
  \<^verbatim>\<open>count()\<close> counts the non-null values, and \<^verbatim>\<open>over(key)\<close> evaluates the aggregate on
  the rows with the key of the current row, the rows with a null key forming one
  partition.
\<close>

fun non_null :: "'a option list \<Rightarrow> 'a list" where
  "non_null [] = []"
| "non_null (None # vs) = non_null vs"
| "non_null (Some v # vs) = v # non_null vs"

definition col_sum :: "f64 option list \<Rightarrow> f64" where
  "col_sum vs = foldl f64_add (Fin 0) (non_null vs)"

definition col_count :: "'a option list \<Rightarrow> nat" where
  "col_count vs = length (non_null vs)"

definition partition_of :: "('r \<Rightarrow> 'k) \<Rightarrow> 'r list \<Rightarrow> 'r \<Rightarrow> 'r list" where
  "partition_of key t r = filter (\<lambda>x. key x = key r) t"

definition density_class_of :: "nat \<Rightarrow> string" where
  "density_class_of n =
     when_then (Some (100 < n)) ''Strategic Hub''
       (when_then (Some (n < 10)) ''Expansion Zone'' ''Standard Zone'')"

definition window_metrics_of ::
  "clean_row derived_row list \<Rightarrow> clean_row derived_row \<Rightarrow> window_metrics" where
  "window_metrics_of t r =
     (let n = col_count (map (\<lambda>x. order_state (src x))
                (partition_of (\<lambda>x. order_state (src x)) t r))
      in \<lparr>category_share_pct =
            null_op f64_div (gross_sales (fin r))
              (Some (col_sum (map (\<lambda>x. gross_sales (fin x))
                 (partition_of (\<lambda>x. category_name (src x)) t r)))),
          state_order_count = n,
          market_share_pct =
            null_op f64_div (gross_sales (fin r))
              (Some (col_sum (map (\<lambda>x. gross_sales (fin x))
                 (partition_of (\<lambda>x. market (src x)) t r)))),
          state_density_class = density_class_of n\<rparr>)"

definition window :: "clean_row derived_row list \<Rightarrow> clean_row windowed_row list" where
  "window t =
     map (\<lambda>r. \<lparr>src = src r, fin = fin r, ops = ops r, seg = seg r,
               win = window_metrics_of t r\<rparr>) t"

subsection \<open>Step 6: star schema enrichment\<close>

text \<open>
  A dimension table is the list of its rows, each the values of its join columns (in the
  order of the \<^verbatim>\<open>on\<close> list) and the other columns: the surrogate key and the attributes.
  Two keys match when they are equal and hold no null. A left join emits, in the order
  of the left table, one row for every matching dimension row, and one row with nulls in
  the dimension's columns (\<open>None\<close>) when nothing matches.
\<close>

type_synonym join_key = "string option list"
type_synonym dim_payload = "int option \<times> string option list"
type_synonym dim_table = "(join_key \<times> dim_payload) list"

definition key_match :: "join_key \<Rightarrow> join_key \<Rightarrow> bool" where
  "key_match k k' = (k = k' \<and> None \<notin> set k)"

definition join_row :: "('r \<Rightarrow> join_key) \<Rightarrow> dim_table \<Rightarrow> 'r \<Rightarrow> ('r \<times> dim_payload option) list" where
  "join_row key tab r =
     (case filter (\<lambda>d. key_match (key r) (fst d)) tab of
        [] \<Rightarrow> [(r, None)]
      | ms \<Rightarrow> map (\<lambda>d. (r, Some (snd d))) ms)"

definition left_join :: "('r \<Rightarrow> join_key) \<Rightarrow> dim_table \<Rightarrow> 'r list \<Rightarrow> ('r \<times> dim_payload option) list" where
  "left_join key tab t = concat (map (join_row key tab) t)"

definition geo_key :: "'a clean_row_scheme \<Rightarrow> join_key" where
  "geo_key r = [order_state r, order_country r, order_region r, market r]"

definition cust_key :: "'a clean_row_scheme \<Rightarrow> join_key" where
  "cust_key r = [customer_state r, customer_country r]"

definition prod_key :: "'a clean_row_scheme \<Rightarrow> join_key" where
  "prod_key r = [product_name r, category_name r, department_name r]"

record dimension_tables =
  dim_geo :: dim_table
  dim_cust :: dim_table
  dim_prod :: dim_table

text \<open>
  The output row: the natural keys are gone, the columns of the three dimensions are
  attached. No join reads a column that an earlier \<^verbatim>\<open>drop\<close> removed, so the three
  drops are carried out together behind the last join.
\<close>

record fact_row = "fact_source windowed_row" +
  geo :: "dim_payload option"
  customer_geo :: "dim_payload option"
  product :: "dim_payload option"

definition drop_natural_keys ::
  "((clean_row windowed_row \<times> dim_payload option) \<times> dim_payload option) \<times> dim_payload option
     \<Rightarrow> fact_row" where
  "drop_natural_keys x =
     (case x of (((r, g), c), p) \<Rightarrow>
        \<lparr>src = fact_source.truncate (src r), fin = fin r, ops = ops r, seg = seg r,
         win = win r, geo = g, customer_geo = c, product = p\<rparr>)"

definition enrich :: "dimension_tables \<Rightarrow> clean_row windowed_row list \<Rightarrow> fact_row list" where
  "enrich dims t =
     map drop_natural_keys
       (left_join (\<lambda>x. prod_key (src (fst (fst x)))) (dim_prod dims)
         (left_join (\<lambda>x. cust_key (src (fst x))) (dim_cust dims)
           (left_join (\<lambda>r. geo_key (src r)) (dim_geo dims) t)))"

subsection \<open>Step 7: final sort\<close>

text \<open>
  Ascending by the four columns, nulls first. Polars leaves the order of rows with equal
  keys open; this sort keeps them in their order. The renaming of the columns to lower
  case changes no row.
\<close>

definition final_sort :: "fact_row list \<Rightarrow> fact_row list" where
  "final_sort t =
     sort_key (\<lambda>r. (order_year (src r), order_month (src r), order_day (src r),
                     order_item_quantity (src r))) t"

definition silver_table :: "dimension_tables \<Rightarrow> raw_row list \<Rightarrow> fact_row list" where
  "silver_table dims t = final_sort (enrich dims (window (map derive (clean t))))"

subsection \<open>The batch coordinator\<close>

text \<open>
  The folders are maps from file names to contents. A file of the Bronze folder either
  parses into a table with the columns the expressions name, or makes \<^verbatim>\<open>read_csv\<close> or
  an expression raise. What lies outside the program is an environment: whether the
  dimension files can be read, which output files can be written, which source files can
  be moved, and the clock.
\<close>

datatype csv_file = Unparsable | Table "raw_row list"

record lake =
  bronze :: "string \<rightharpoonup> csv_file"
  silver :: "string \<rightharpoonup> fact_row list"
  archive :: "string \<rightharpoonup> csv_file"

record environment =
  dimensions :: "dimension_tables option"
  writable :: "string \<Rightarrow> bool"
  movable :: "string \<Rightarrow> bool"
  clock :: "string \<Rightarrow> string"

text \<open>
  \<^verbatim>\<open>os.path.splitext\<close> on a file name: the extension starts at the last dot, unless
  only dots stand before it.
\<close>

definition splitext :: "string \<Rightarrow> string \<times> string" where
  "splitext p =
     (let ext = rev (takeWhile (\<lambda>c. c \<noteq> CHR ''.'') (rev p));
          n = length p - length ext - 1
      in if CHR ''.'' \<in> set p \<and> list_ex (\<lambda>c. c \<noteq> CHR ''.'') (take n p)
         then (take n p, drop n p) else (p, []))"

definition output_name :: "string \<Rightarrow> string" where
  "output_name file_name = ''Fact_'' @ fst (splitext file_name) @ ''.parquet''"

definition archive_name :: "string \<Rightarrow> string \<Rightarrow> string" where
  "archive_name file_name stamp = fst (splitext file_name) @ ''_'' @ stamp @ ''.csv''"

text \<open>
  The body of the loop. Every exception is caught by the one handler, which prints and
  goes on, so a failing call leaves the lake as it is at that moment.
\<close>

definition process_file :: "environment \<Rightarrow> lake \<Rightarrow> string \<Rightarrow> lake" where
  "process_file env w file_name =
     (case bronze w file_name of
        None \<Rightarrow> w
      | Some Unparsable \<Rightarrow> w
      | Some (Table t) \<Rightarrow>
          (case dimensions env of
             None \<Rightarrow> w
           | Some dims \<Rightarrow>
               if \<not> writable env (output_name file_name) then w
               else
                 let w' = w\<lparr>silver := (silver w)(output_name file_name \<mapsto> silver_table dims t)\<rparr>
                 in if \<not> movable env file_name then w'
                    else w'\<lparr>bronze := (bronze w')(file_name := None),
                            archive := (archive w')
                              (archive_name file_name (clock env file_name) \<mapsto> Table t)\<rparr>))"

definition run_batch :: "environment \<Rightarrow> string list \<Rightarrow> lake \<Rightarrow> lake" where
  "run_batch env csv_files w = foldl (process_file env) w csv_files"

text \<open>The conditions under which every call in the loop body succeeds for a file.\<close>

definition succeeds :: "environment \<Rightarrow> lake \<Rightarrow> string \<Rightarrow> bool" where
  "succeeds env w file_name =
     (case bronze w file_name of
        Some (Table t) \<Rightarrow>
          dimensions env \<noteq> None \<and> writable env (output_name file_name) \<and> movable env file_name
      | _ \<Rightarrow> False)"

subsection \<open>Example data\<close>

definition example_order :: raw_row where
  "example_order =
     \<lparr>order_year = Some 2017, order_month = Some 3, order_day = Some 14,
      order_item_product_price = Some (Fin 100), order_item_quantity = Some 1,
      order_item_discount_rate = Some (Fin (1 / 2)),
      order_item_profit_ratio = Some (Fin (- 1)),
      days_for_shipping_real = Some 3, days_for_shipment_scheduled = Some 4,
      other_columns = [Some ''DEBIT'', Some ''COMPLETE'', Some ''Consumer''],
      order_state = Some ''Jalisco'', order_country = Some ''Mexico'',
      order_region = Some ''Central America'', market = Some ''LATAM'',
      customer_state = Some ''PR'', customer_country = Some ''Puerto Rico'',
      product_name = Some ''Smart watch'', category_name = Some ''Electronics'',
      department_name = Some ''Technology'',
      order_dayofweek = Some 2, shipping_mode = Some ''Standard Class''\<rparr>"

definition example_dims :: dimension_tables where
  "example_dims =
     \<lparr>dim_geo =
        [([Some ''Jalisco'', Some ''Mexico'', Some ''Central America'', Some ''LATAM''],
          (Some 7, [])),
         ([Some ''Texas'', Some ''Estados Unidos'', Some ''US Center'', Some ''USCA''],
          (Some 8, []))],
      dim_cust = [([Some ''CA'', Some ''EE. UU.''], (Some 1, []))],
      dim_prod =
        [([Some ''Smart watch'', Some ''Electronics'', Some ''Technology''],
          (Some 3, [Some ''wearable'']))]\<rparr>"

definition example_env :: environment where
  "example_env =
     \<lparr>dimensions = Some example_dims, writable = (\<lambda>_. True), movable = (\<lambda>_. True),
      clock = (\<lambda>_. ''20240101_120000'')\<rparr>"

definition example_lake :: lake where
  "example_lake =
     \<lparr>bronze = [''orders.csv'' \<mapsto> Table [example_order], ''broken.csv'' \<mapsto> Unparsable],
      silver = Map.empty, archive = Map.empty\<rparr>"

definition example_clean :: clean_row where
  "example_clean = drop_helper_columns (example_order, valid_date_check example_order)"

text \<open>The same order with no discount and no profit.\<close>

definition example_flat :: clean_row where
  "example_flat =
     example_clean\<lparr>order_item_discount_rate := Some (Fin 0),
                    order_item_profit_ratio := Some (Fin 0)\<rparr>"

text \<open>The same order with a null price and a null scheduled shipping time.\<close>

definition example_nulls :: clean_row where
  "example_nulls =
     example_clean\<lparr>order_item_product_price := None, days_for_shipment_scheduled := None\<rparr>"

text \<open>Two further orders, of two and of three items.\<close>

definition example_order_b :: raw_row where
  "example_order_b = example_order\<lparr>order_item_quantity := Some 2\<rparr>"

definition example_order_c :: raw_row where
  "example_order_c = example_order\<lparr>order_item_quantity := Some 3\<rparr>"

text \<open>
  The same order with another shipping mode, with a null order state, and with the
  quantity 0.
\<close>

definition example_order_d :: raw_row where
  "example_order_d = example_order\<lparr>shipping_mode := Some ''First Class''\<rparr>"

definition example_order_e :: raw_row where
  "example_order_e = example_order\<lparr>order_state := None\<rparr>"

definition example_order_z :: raw_row where
  "example_order_z = example_order\<lparr>order_item_quantity := Some 0\<rparr>"

definition example_windowed :: "clean_row windowed_row list" where
  "example_windowed = window (map derive (clean [example_order, example_order_e]))"

definition example_derived :: "clean_row derived_row list" where
  "example_derived = map derive (clean [example_order, example_order_b])"

definition example_derived_z :: "clean_row derived_row list" where
  "example_derived_z = map derive (clean [example_order_z])"

text \<open>An environment in which no source file can be moved.\<close>

definition example_env_stuck :: environment where
  "example_env_stuck = example_env\<lparr>movable := (\<lambda>_. False)\<rparr>"

text \<open>A file with the one example order.\<close>

definition example_derived_one :: "clean_row derived_row list" where
  "example_derived_one = map derive (clean [example_order])"

subsection \<open>Finite column values\<close>


subsection \<open>Joins against unique-keyed dimension tables\<close>

text \<open>
  The columns a join attaches when no two rows of the dimension table have the same key:
  those of the one matching row, or nulls. \<open>enrich_row\<close> is the output row that the three
  joins then make of a row.
\<close>

definition lookup :: "dim_table \<Rightarrow> join_key \<Rightarrow> dim_payload option" where
  "lookup tab k = map_option snd (find (\<lambda>d. key_match k (fst d)) tab)"

definition enrich_row :: "dimension_tables \<Rightarrow> clean_row windowed_row \<Rightarrow> fact_row" where
  "enrich_row dims r =
     \<lparr>src = fact_source.truncate (src r), fin = fin r, ops = ops r, seg = seg r, win = win r,
      geo = lookup (dim_geo dims) (geo_key (src r)),
      customer_geo = lookup (dim_cust dims) (cust_key (src r)),
      product = lookup (dim_prod dims) (prod_key (src r))\<rparr>"

section \<open>Properties\<close>

lemmas row_defs = derive_def financial_metrics_def operational_features_def segmentation_def
  margin_leakage_def leakage_ratio_def drop_helper_columns_def clean_row.truncate_def
  clean_row.defs fact_source.defs Let_def f64_sub_def signed_inf_def to_f64_def
  example_clean_def example_order_def example_flat_def example_nulls_def

lemmas table_defs = silver_table_def clean_def validate_def valid_date_check_def unique_def
  valid_date_def days_in_month_def leap_year_def window_def window_metrics_of_def
  partition_of_def col_sum_def col_count_def density_class_of_def when_then_def enrich_def
  left_join_def join_row_def key_match_def geo_key_def cust_key_def prod_key_def
  drop_natural_keys_def final_sort_def example_dims_def example_order_b_def
  example_order_c_def example_order_d_def example_order_e_def example_order_z_def
  example_windowed_def example_derived_def example_derived_z_def example_derived_one_def

lemma null_op_None_right [simp]: "null_op f x None = None"
  by (cases x) simp_all

subsection \<open>The NaN guard of the margin leakage\<close>

lemma fill_nan_not_NaN: "v \<noteq> NaN \<Longrightarrow> fill_nan v x \<noteq> Some NaN"
  by (cases "(v, x)" rule: fill_nan.cases) auto

lemma fill_nan_keeps: "x \<noteq> Some NaN \<Longrightarrow> fill_nan v x = x"
  by (cases "(v, x)" rule: fill_nan.cases) auto

lemma margin_leakage_pct_derive:
  "margin_leakage_pct (ops (derive r)) =
     fill_nan (Fin 0)
       (leakage_ratio (discount_amount (fin (derive r))) (order_profit_amount (fin (derive r))))"
  by (simp add: derive_def operational_features_def margin_leakage_def Let_def)

text \<open>
  C1, as the code has it. \<^verbatim>\<open>margin_leakage_pct\<close> is never NaN: where the division
  yields NaN the column is 0.0, and every other quotient is kept. So the column is 0.0
  when \<^verbatim>\<open>discount_amount\<close> and the sum \<^verbatim>\<open>order_profit_amount + discount_amount\<close> are both
  zero, while a nonzero discount over a zero sum leaves the infinite quotient in the
  column.
\<close>

theorem margin_leakage_nan_guard:
  "margin_leakage_pct (ops (derive r)) \<noteq> Some NaN
   \<and> (leakage_ratio (discount_amount (fin (derive r))) (order_profit_amount (fin (derive r)))
        = Some NaN
      \<longrightarrow> margin_leakage_pct (ops (derive r)) = Some (Fin 0))
   \<and> (leakage_ratio (discount_amount (fin (derive r))) (order_profit_amount (fin (derive r)))
        \<noteq> Some NaN
      \<longrightarrow> margin_leakage_pct (ops (derive r)) =
            leakage_ratio (discount_amount (fin (derive r)))
              (order_profit_amount (fin (derive r))))
   \<and> (discount_amount (fin (derive r)) = Some (Fin 0)
        \<and> null_op f64_add (order_profit_amount (fin (derive r)))
             (discount_amount (fin (derive r))) = Some (Fin 0)
      \<longrightarrow> margin_leakage_pct (ops (derive r)) = Some (Fin 0))
   \<and> (discount_amount (fin (derive r)) = Some (Fin d) \<and> d \<noteq> 0
        \<and> null_op f64_add (order_profit_amount (fin (derive r)))
             (discount_amount (fin (derive r))) = Some (Fin 0)
      \<longrightarrow> margin_leakage_pct (ops (derive r)) = Some (if 0 < d then PInf else NInf))"
  unfolding margin_leakage_pct_derive
  by (auto simp add: fill_nan_not_NaN fill_nan_keeps leakage_ratio_def signed_inf_def)

theorem margin_leakage_nan_guard_witness:
  "discount_amount (fin (derive example_flat)) = Some (Fin 0)
   \<and> null_op f64_add (order_profit_amount (fin (derive example_flat)))
        (discount_amount (fin (derive example_flat))) = Some (Fin 0)
   \<and> leakage_ratio (discount_amount (fin (derive example_flat)))
        (order_profit_amount (fin (derive example_flat))) = Some NaN
   \<and> margin_leakage_pct (ops (derive example_flat)) = Some (Fin 0)
   \<and> discount_amount (fin (derive example_clean)) = Some (Fin 50)
   \<and> leakage_ratio (discount_amount (fin (derive example_clean)))
        (order_profit_amount (fin (derive example_clean))) \<noteq> Some NaN
   \<and> margin_leakage_pct (ops (derive example_clean)) = Some PInf"
proof -
  have z: "discount_amount (fin (derive example_flat)) = Some (Fin 0)"
    "null_op f64_add (order_profit_amount (fin (derive example_flat)))
       (discount_amount (fin (derive example_flat))) = Some (Fin 0)"
    "leakage_ratio (discount_amount (fin (derive example_flat)))
       (order_profit_amount (fin (derive example_flat))) = Some NaN"
    by (simp_all add: row_defs)
  have e: "discount_amount (fin (derive example_clean)) = Some (Fin 50)" "(50::rat) \<noteq> 0"
    "null_op f64_add (order_profit_amount (fin (derive example_clean)))
       (discount_amount (fin (derive example_clean))) = Some (Fin 0)"
    "leakage_ratio (discount_amount (fin (derive example_clean)))
       (order_profit_amount (fin (derive example_clean))) \<noteq> Some NaN"
    by (simp_all add: row_defs)
  from margin_leakage_nan_guard [of example_flat 0] z
  have m1: "margin_leakage_pct (ops (derive example_flat)) = Some (Fin 0)"
    by blast
  from margin_leakage_nan_guard [of example_clean 50] e
  have "margin_leakage_pct (ops (derive example_clean))
          = Some (if (0::rat) < 50 then PInf else NInf)"
    by blast
  then have m2: "margin_leakage_pct (ops (derive example_clean)) = Some PInf"
    by simp
  from z e m1 m2 show ?thesis by blast
qed

text \<open>
  The claim as stated fails for an order of one item at 100.0 with the discount rate 0.5
  and the profit ratio -1.0: the discount is 50.0, the profit -50.0, their sum 0.0, and
  the column holds the infinity 50.0 / 0.0.
\<close>

theorem margin_leakage_zero_sum_counterexample:
  "null_op f64_add (order_profit_amount (fin (derive example_clean)))
     (discount_amount (fin (derive example_clean))) = Some (Fin 0)
   \<and> margin_leakage_pct (ops (derive example_clean)) = Some PInf
   \<and> margin_leakage_pct (ops (derive example_clean)) \<noteq> Some (Fin 0)"
  by (simp add: row_defs)

subsection \<open>Null scrutinees of the classifiers\<close>

text \<open>
  C10. A null \<^verbatim>\<open>order_item_product_price\<close> gives the price segment Premium, a null
  \<^verbatim>\<open>shipping_delta\<close> the delivery class Late, and a null
  \<^verbatim>\<open>days_for_shipment_scheduled\<close> the shipping mode Standard Class: the labels of the
  \<^verbatim>\<open>otherwise\<close> branches.
\<close>

theorem null_scrutinee_takes_otherwise:
  "(order_item_product_price r = None \<longrightarrow> price_segment (seg (derive r)) = ''Premium'')
   \<and> (shipping_delta (ops (derive r)) = None \<longrightarrow> delivery_class (seg (derive r)) = ''Late'')
   \<and> (days_for_shipment_scheduled r = None
        \<longrightarrow> shipping_mode_clean (seg (derive r)) = ''Standard Class'')"
  by (simp add: derive_def segmentation_def Let_def price_segment_of_def delivery_class_of_def
        shipping_mode_clean_of_def when_then_def)

theorem null_scrutinee_takes_otherwise_witness:
  "order_item_product_price example_nulls = None
   \<and> shipping_delta (ops (derive example_nulls)) = None
   \<and> days_for_shipment_scheduled example_nulls = None
   \<and> price_segment (seg (derive example_nulls)) = ''Premium''
   \<and> delivery_class (seg (derive example_nulls)) = ''Late''
   \<and> shipping_mode_clean (seg (derive example_nulls)) = ''Standard Class''"
proof -
  have h: "order_item_product_price example_nulls = None"
    "shipping_delta (ops (derive example_nulls)) = None"
    "days_for_shipment_scheduled example_nulls = None"
    by (simp_all add: example_nulls_def derive_def operational_features_def Let_def)
  from null_scrutinee_takes_otherwise [of example_nulls] h show ?thesis by blast
qed

subsection \<open>Deduplication\<close>

lemma set_unique_from: "set (unique_from seen xs) = set xs - set seen"
  by (induction xs arbitrary: seen) auto

lemma distinct_unique_from: "distinct (unique_from seen xs)"
  by (induction xs arbitrary: seen) (auto simp: set_unique_from)

lemma upt_0_Suc: "[0..<Suc n] = 0 # map Suc [0..<n]"
  by (simp add: upt_conv_Cons map_Suc_upt del: upt_Suc)

lemma unique_from_index:
  "unique_from seen xs =
     map ((!) xs) (filter (\<lambda>i. xs ! i \<notin> set seen \<union> set (take i xs)) [0..<length xs])"
proof (induction xs arbitrary: seen)
  case Nil
  then show ?case by simp
next
  case (Cons x xs)
  show ?case
    apply (cases "x \<in> set seen")
     apply (simp_all add: upt_0_Suc filter_map comp_def Cons.IH del: upt_Suc)
     apply (rule arg_cong[where f="map ((!) xs)"])
     apply (rule filter_cong)
      apply auto[2]
    apply (rule arg_cong[where f="map ((!) xs)"])
    apply (rule filter_cong)
     apply auto
    done
qed

lemma distinct_unique: "distinct (unique t)"
  by (simp add: unique_def distinct_unique_from)

text \<open>
  C6. Deduplication leaves no two equal rows and loses no row value; the rows it keeps
  are, in the order of the input, exactly the rows with no equal row before them. For
  the rows A, B, A, C with A, B and C different, the result is A, B, C.
\<close>

theorem unique_keeps_first_occurrences:
  "distinct (unique t) \<and> set (unique t) = set t
   \<and> unique t = map ((!) t) (filter (\<lambda>i. t ! i \<notin> set (take i t)) [0..<length t])
   \<and> (a \<noteq> b \<and> a \<noteq> c \<and> b \<noteq> c \<longrightarrow> unique [a, b, a, c] = [a, b, c])"
proof (intro conjI)
  show "distinct (unique t)"
    by (rule distinct_unique)
  show "set (unique t) = set t"
    by (simp add: unique_def set_unique_from)
  show "unique t = map ((!) t) (filter (\<lambda>i. t ! i \<notin> set (take i t)) [0..<length t])"
    by (simp add: unique_def unique_from_index)
  show "a \<noteq> b \<and> a \<noteq> c \<and> b \<noteq> c \<longrightarrow> unique [a, b, a, c] = [a, b, c]"
    by (auto simp add: unique_def)
qed

theorem unique_keeps_first_occurrences_witness:
  "example_order \<noteq> example_order_b \<and> example_order \<noteq> example_order_c
   \<and> example_order_b \<noteq> example_order_c
   \<and> unique [example_order, example_order_b, example_order, example_order_c]
       = [example_order, example_order_b, example_order_c]"
proof -
  have h: "example_order \<noteq> example_order_b \<and> example_order \<noteq> example_order_c
      \<and> example_order_b \<noteq> example_order_c"
    by (simp add: example_order_def example_order_b_def example_order_c_def)
  from unique_keeps_first_occurrences
         [of "[example_order, example_order_b, example_order, example_order_c]"
             example_order example_order_b example_order_c] h
  show ?thesis by blast
qed

subsection \<open>The trade route\<close>

lemma replace_first_leftmost:
  "n \<le> length s \<Longrightarrow> (\<forall>i<n. match_prefix p (drop i s) = None)
     \<Longrightarrow> match_prefix p (drop n s) = Some rest
     \<Longrightarrow> replace_first p v s = take n s @ v @ rest"
proof (induction s arbitrary: n)
  case Nil
  then show ?case by simp
next
  case (Cons c cs)
  show ?case
  proof (cases n)
    case 0
    with Cons.prems show ?thesis by simp
  next
    case (Suc m)
    from Cons.prems(2) Suc have none: "match_prefix p (c # cs) = None"
      by (metis drop0 zero_less_Suc)
    have "\<forall>i<m. match_prefix p (drop i cs) = None"
    proof (intro allI impI)
      fix i assume "i < m"
      then have "Suc i < n" using Suc by simp
      with Cons.prems(2) have "match_prefix p (drop (Suc i) (c # cs)) = None" by blast
      then show "match_prefix p (drop i cs) = None" by simp
    qed
    moreover have "m \<le> length cs" using Cons.prems(1) Suc by simp
    moreover have "match_prefix p (drop m cs) = Some rest" using Cons.prems(3) Suc by simp
    ultimately have "replace_first p v cs = take m cs @ v @ rest"
      using Cons.IH by blast
    with none Suc show ?thesis by simp
  qed
qed

lemma replace_first_no_match:
  "(\<forall>i\<le>length s. match_prefix p (drop i s) = None) \<Longrightarrow> replace_first p v s = s"
proof (induction s)
  case Nil
  then show ?case by simp
next
  case (Cons c cs)
  from Cons.prems have none: "match_prefix p (c # cs) = None"
    by (metis drop0 le0)
  have "\<forall>i\<le>length cs. match_prefix p (drop i cs) = None"
  proof (intro allI impI)
    fix i assume "i \<le> length cs"
    then have "Suc i \<le> length (c # cs)" by simp
    with Cons.prems have "match_prefix p (drop (Suc i) (c # cs)) = None" by blast
    then show "match_prefix p (drop i cs) = None" by simp
  qed
  then have "replace_first p v cs = cs" by (rule Cons.IH)
  with none show ?case by simp
qed

lemma pattern_shape:
  "match_prefix (regex_of ''EE. UU.'') s = Some rest \<longleftrightarrow>
     (\<exists>x y. s = ''EE'' @ [x] @ '' UU'' @ [y] @ rest \<and> x \<noteq> CHR 0x0A \<and> y \<noteq> CHR 0x0A)"
  apply (cases s; simp)
  subgoal for c1 s1
  apply (cases s1; simp)
  subgoal for c2 s2
  apply (cases s2; simp)
  subgoal for c3 s3
  apply (cases s3; simp)
  subgoal for c4 s4
  apply (cases s4; simp)
  subgoal for c5 s5
  apply (cases s5; simp)
  subgoal for c6 s6
  by (cases s6; simp)
  done done done done done done

lemma list_all_upt_le: "list_all P [0..<Suc n] \<Longrightarrow> \<forall>i\<le>n. P i"
  by (simp add: list_all_iff less_Suc_eq_le del: upt_Suc)

lemma list_all_upt_less: "list_all P [0..<n] \<Longrightarrow> \<forall>i<n. P i"
  by (simp add: list_all_iff)

lemma trade_route_derive:
  "trade_route (seg (derive r)) =
     trade_route_of (customer_country r) (customer_state r) (order_country r)"
  by (simp add: derive_def segmentation_def Let_def)

text \<open>
  C8, as the code has it. \<^verbatim>\<open>trade_route\<close> is null when one of the three columns is
  null, and otherwise the customer country after the replacement, an underscore, the
  customer state, an arrow and the order country. The replacement works inside the
  value: the leftmost part of it that reads E, E, any character but a line feed, a
  space, U, U, any character but a line feed, becomes USA. The value \<^verbatim>\<open>EE. UU.\<close>
  becomes USA, and a value with no such part passes through unchanged.
\<close>

theorem trade_route_replaces_leftmost_match:
  "(customer_country r = Some c \<and> customer_state r = Some s \<and> order_country r = Some d
      \<longrightarrow> trade_route (seg (derive r)) =
            Some (replace_first (regex_of ''EE. UU.'') ''USA'' c @ ''_'' @ s @ '' -> '' @ d))
   \<and> (customer_country r = None \<or> customer_state r = None \<or> order_country r = None
      \<longrightarrow> trade_route (seg (derive r)) = None)
   \<and> replace_first (regex_of ''EE. UU.'') ''USA'' ''EE. UU.'' = ''USA''
   \<and> ((\<forall>i\<le>length c. match_prefix (regex_of ''EE. UU.'') (drop i c) = None)
      \<longrightarrow> replace_first (regex_of ''EE. UU.'') ''USA'' c = c)
   \<and> (n \<le> length c \<and> (\<forall>i<n. match_prefix (regex_of ''EE. UU.'') (drop i c) = None)
        \<and> match_prefix (regex_of ''EE. UU.'') (drop n c) = Some rest
      \<longrightarrow> replace_first (regex_of ''EE. UU.'') ''USA'' c = take n c @ ''USA'' @ rest)
   \<and> (match_prefix (regex_of ''EE. UU.'') c = Some rest \<longleftrightarrow>
        (\<exists>x y. c = ''EE'' @ [x] @ '' UU'' @ [y] @ rest \<and> x \<noteq> CHR 0x0A \<and> y \<noteq> CHR 0x0A))"
proof (intro conjI)
  show "customer_country r = Some c \<and> customer_state r = Some s \<and> order_country r = Some d
      \<longrightarrow> trade_route (seg (derive r)) =
            Some (replace_first (regex_of ''EE. UU.'') ''USA'' c @ ''_'' @ s @ '' -> '' @ d)"
    by (simp add: trade_route_derive trade_route_of_def str_replace_def)
  show "customer_country r = None \<or> customer_state r = None \<or> order_country r = None
      \<longrightarrow> trade_route (seg (derive r)) = None"
    by (auto simp add: trade_route_derive trade_route_of_def str_replace_def)
  show "replace_first (regex_of ''EE. UU.'') ''USA'' ''EE. UU.'' = ''USA''"
    by simp
  show "(\<forall>i\<le>length c. match_prefix (regex_of ''EE. UU.'') (drop i c) = None)
      \<longrightarrow> replace_first (regex_of ''EE. UU.'') ''USA'' c = c"
    using replace_first_no_match by blast
  show "n \<le> length c \<and> (\<forall>i<n. match_prefix (regex_of ''EE. UU.'') (drop i c) = None)
        \<and> match_prefix (regex_of ''EE. UU.'') (drop n c) = Some rest
      \<longrightarrow> replace_first (regex_of ''EE. UU.'') ''USA'' c = take n c @ ''USA'' @ rest"
    using replace_first_leftmost by blast
  show "match_prefix (regex_of ''EE. UU.'') c = Some rest \<longleftrightarrow>
        (\<exists>x y. c = ''EE'' @ [x] @ '' UU'' @ [y] @ rest \<and> x \<noteq> CHR 0x0A \<and> y \<noteq> CHR 0x0A)"
    by (rule pattern_shape)
qed

theorem trade_route_replaces_leftmost_match_witness:
  "customer_country example_clean = Some ''Puerto Rico''
   \<and> customer_state example_clean = Some ''PR''
   \<and> order_country example_clean = Some ''Mexico''
   \<and> list_all (\<lambda>i. match_prefix (regex_of ''EE. UU.'') (drop i ''Puerto Rico'') = None)
        [0..<Suc (length ''Puerto Rico'')]
   \<and> replace_first (regex_of ''EE. UU.'') ''USA'' ''Puerto Rico'' = ''Puerto Rico''
   \<and> trade_route (seg (derive example_clean)) = Some ''Puerto Rico_PR -> Mexico''
   \<and> (7::nat) \<le> length ''Miami, EE. UU.''
   \<and> list_all (\<lambda>i. match_prefix (regex_of ''EE. UU.'') (drop i ''Miami, EE. UU.'') = None)
        [0..<7]
   \<and> match_prefix (regex_of ''EE. UU.'') (drop 7 ''Miami, EE. UU.'') = Some []
   \<and> replace_first (regex_of ''EE. UU.'') ''USA'' ''Miami, EE. UU.'' = ''Miami, USA''"
proof -
  have r: "customer_country example_clean = Some ''Puerto Rico''"
    "customer_state example_clean = Some ''PR''" "order_country example_clean = Some ''Mexico''"
    by (simp_all add: row_defs)
  have la: "list_all (\<lambda>i. match_prefix (regex_of ''EE. UU.'') (drop i ''Puerto Rico'') = None)
      [0..<Suc (length ''Puerto Rico'')]"
    by code_simp
  from la have a: "\<forall>i\<le>length ''Puerto Rico''.
      match_prefix (regex_of ''EE. UU.'') (drop i ''Puerto Rico'') = None"
    by (rule list_all_upt_le)
  have lb: "list_all (\<lambda>i. match_prefix (regex_of ''EE. UU.'') (drop i ''Miami, EE. UU.'') = None)
      [0..<7]"
    by code_simp
  then have b: "\<forall>i<7. match_prefix (regex_of ''EE. UU.'') (drop i ''Miami, EE. UU.'') = None"
    by (rule list_all_upt_less)
  have c: "(7::nat) \<le> length ''Miami, EE. UU.''"
    "match_prefix (regex_of ''EE. UU.'') (drop 7 ''Miami, EE. UU.'') = Some []"
    by simp_all
  from trade_route_replaces_leftmost_match
         [of example_clean "''Puerto Rico''" "''PR''" "''Mexico''"] r a
  have t: "replace_first (regex_of ''EE. UU.'') ''USA'' ''Puerto Rico'' = ''Puerto Rico''"
    "trade_route (seg (derive example_clean))
      = Some (replace_first (regex_of ''EE. UU.'') ''USA'' ''Puerto Rico''
              @ ''_'' @ ''PR'' @ '' -> '' @ ''Mexico'')"
    by blast+
  from trade_route_replaces_leftmost_match [of example_clean "''Miami, EE. UU.''" _ _ 7 "[]"] b c
  have "replace_first (regex_of ''EE. UU.'') ''USA'' ''Miami, EE. UU.''
      = take 7 ''Miami, EE. UU.'' @ ''USA'' @ []"
    by blast
  then have m: "replace_first (regex_of ''EE. UU.'') ''USA'' ''Miami, EE. UU.'' = ''Miami, USA''"
    by simp
  from t have t': "trade_route (seg (derive example_clean)) = Some ''Puerto Rico_PR -> Mexico''"
    by simp
  from r la lb c t(1) t' m show ?thesis by blast
qed

text \<open>
  The claim as stated fails for the customer country \<^verbatim>\<open>Miami, EE. UU.\<close>: it is not the
  value \<^verbatim>\<open>EE. UU.\<close>, so the specification's normalisation leaves it alone, yet the
  trade route starts with \<^verbatim>\<open>Miami, USA\<close>.
\<close>

theorem trade_route_substring_counterexample:
  "trade_route (seg (derive (example_clean\<lparr>customer_country := Some ''Miami, EE. UU.''\<rparr>)))
     = Some ''Miami, USA_PR -> Mexico''
   \<and> spec_normalize ''Miami, EE. UU.'' @ ''_'' @ ''PR'' @ '' -> '' @ ''Mexico''
     = ''Miami, EE. UU._PR -> Mexico''
   \<and> customer_state (example_clean\<lparr>customer_country := Some ''Miami, EE. UU.''\<rparr>) = Some ''PR''
   \<and> order_country (example_clean\<lparr>customer_country := Some ''Miami, EE. UU.''\<rparr>)
     = Some ''Mexico''"
  by (simp add: trade_route_derive trade_route_of_def str_replace_def spec_normalize_def
        row_defs)

subsection \<open>Row count under the dimension joins\<close>

lemma filter_key_match_unique:
  "distinct (map fst tab) \<Longrightarrow>
     filter (\<lambda>d. key_match k (fst d)) tab =
       (case find (\<lambda>d. key_match k (fst d)) tab of None \<Rightarrow> [] | Some d \<Rightarrow> [d])"
proof (induction tab)
  case Nil
  then show ?case by simp
next
  case (Cons d tab)
  show ?case
  proof (cases "key_match k (fst d)")
    case True
    then have "fst d = k" by (simp add: key_match_def)
    from Cons.prems have "fst d \<notin> fst ` set tab" by simp
    with \<open>fst d = k\<close> have "\<forall>e \<in> set tab. fst e \<noteq> k" by blast
    then have "filter (\<lambda>d. key_match k (fst d)) tab = []"
      by (auto simp: filter_empty_conv key_match_def)
    with True show ?thesis by simp
  next
    case False
    with Cons show ?thesis by simp
  qed
qed

lemma join_row_unique:
  "distinct (map fst tab) \<Longrightarrow> join_row key tab r = [(r, lookup tab (key r))]"
  by (simp add: join_row_def filter_key_match_unique lookup_def split: option.split)

lemma left_join_unique:
  "distinct (map fst tab) \<Longrightarrow> left_join key tab t = map (\<lambda>r. (r, lookup tab (key r))) t"
  by (induction t) (simp_all add: left_join_def join_row_unique)

lemma enrich_unique:
  assumes "distinct (map fst (dim_geo dims))" "distinct (map fst (dim_cust dims))"
    "distinct (map fst (dim_prod dims))"
  shows "enrich dims t = map (enrich_row dims) t"
  using assms
  by (simp add: enrich_def left_join_unique drop_natural_keys_def enrich_row_def comp_def)

lemma lookup_None: "(\<forall>d \<in> set tab. \<not> key_match k (fst d)) \<Longrightarrow> lookup tab k = None"
  by (fastforce simp add: lookup_def find_None_iff)

lemma lookup_Some:
  assumes "distinct (map fst tab)" "d \<in> set tab" "key_match k (fst d)"
  shows "lookup tab k = Some (snd d)"
proof -
  from assms(2,3) have "find (\<lambda>d. key_match k (fst d)) tab \<noteq> None"
    using find_None_iff [of "\<lambda>d. key_match k (fst d)" tab] by blast
  then obtain e where e: "find (\<lambda>d. key_match k (fst d)) tab = Some e"
    by blast
  then have "e \<in> set tab" "key_match k (fst e)"
    by (auto simp: find_Some_iff)
  with assms have "fst e = fst d" by (simp add: key_match_def)
  with assms(1,2) \<open>e \<in> set tab\<close> have "e = d"
    by (metis eq_key_imp_eq_value prod.collapse)
  with e show ?thesis by (simp add: lookup_def)
qed

text \<open>
  C3. When no two rows of a dimension table have the same join key, for each of the
  three tables, the enriched table has as many rows as the table before the joins. Row
  by row, in the same order, the derived columns are unchanged, the source columns are
  those that are not natural keys, a row without a match in a dimension carries nulls in
  that dimension's columns, and a row with a match carries the columns of the matching
  row.
\<close>

theorem enrichment_preserves_row_count:
  assumes "distinct (map fst (dim_geo dims))" "distinct (map fst (dim_cust dims))"
    "distinct (map fst (dim_prod dims))"
  shows "length (enrich dims t) = length t
    \<and> (\<forall>i<length t.
          src (enrich dims t ! i) = fact_source.truncate (src (t ! i))
        \<and> fin (enrich dims t ! i) = fin (t ! i) \<and> ops (enrich dims t ! i) = ops (t ! i)
        \<and> seg (enrich dims t ! i) = seg (t ! i) \<and> win (enrich dims t ! i) = win (t ! i)
        \<and> ((\<forall>d\<in>set (dim_geo dims). \<not> key_match (geo_key (src (t ! i))) (fst d))
              \<longrightarrow> geo (enrich dims t ! i) = None)
        \<and> ((\<forall>d\<in>set (dim_cust dims). \<not> key_match (cust_key (src (t ! i))) (fst d))
              \<longrightarrow> customer_geo (enrich dims t ! i) = None)
        \<and> ((\<forall>d\<in>set (dim_prod dims). \<not> key_match (prod_key (src (t ! i))) (fst d))
              \<longrightarrow> product (enrich dims t ! i) = None)
        \<and> (\<forall>d\<in>set (dim_geo dims). key_match (geo_key (src (t ! i))) (fst d)
              \<longrightarrow> geo (enrich dims t ! i) = Some (snd d))
        \<and> (\<forall>d\<in>set (dim_cust dims). key_match (cust_key (src (t ! i))) (fst d)
              \<longrightarrow> customer_geo (enrich dims t ! i) = Some (snd d))
        \<and> (\<forall>d\<in>set (dim_prod dims). key_match (prod_key (src (t ! i))) (fst d)
              \<longrightarrow> product (enrich dims t ! i) = Some (snd d)))"
proof -
  have e: "enrich dims t = map (enrich_row dims) t"
    using assms by (rule enrich_unique)
  show ?thesis
    unfolding e using assms
    by (simp add: enrich_row_def lookup_None lookup_Some)
qed

theorem enrichment_preserves_row_count_witness:
  "distinct (map fst (dim_geo example_dims)) \<and> distinct (map fst (dim_cust example_dims))
   \<and> distinct (map fst (dim_prod example_dims))
   \<and> length example_windowed = 2
   \<and> length (enrich example_dims example_windowed) = 2
   \<and> list_all (\<lambda>d. \<not> key_match (geo_key (src (example_windowed ! 1))) (fst d))
        (dim_geo example_dims)
   \<and> geo (enrich example_dims example_windowed ! 1) = None"
proof -
  have h: "distinct (map fst (dim_geo example_dims))"
    "distinct (map fst (dim_cust example_dims))"
    "distinct (map fst (dim_prod example_dims))"
    by (simp_all add: example_dims_def)
  have l: "length example_windowed = 2"
    by (simp add: table_defs row_defs)
  have u: "list_all (\<lambda>d. \<not> key_match (geo_key (src (example_windowed ! 1))) (fst d))
      (dim_geo example_dims)"
    by (simp add: table_defs row_defs)
  then have u': "\<forall>d\<in>set (dim_geo example_dims).
      \<not> key_match (geo_key (src (example_windowed ! 1))) (fst d)"
    by (simp add: list_all_iff)
  from enrichment_preserves_row_count [OF h, of example_windowed] l u'
  have "length (enrich example_dims example_windowed) = 2
     \<and> geo (enrich example_dims example_windowed ! 1) = None"
    by simp
  with h l u show ?thesis by blast
qed

subsection \<open>The rows of the output\<close>

lemma in_join_row: "x \<in> set (join_row key tab r) \<Longrightarrow> fst x = r"
  by (cases "filter (\<lambda>d. key_match (key r) (fst d)) tab") (auto simp: join_row_def)

lemma in_left_join: "x \<in> set (left_join key tab t) \<Longrightarrow> fst x \<in> set t"
  by (auto simp: left_join_def dest: in_join_row)

lemma in_enrich:
  assumes "x \<in> set (enrich dims t)"
  shows "\<exists>r\<in>set t. src x = fact_source.truncate (src r) \<and> fin x = fin r \<and> ops x = ops r
           \<and> seg x = seg r \<and> win x = win r"
proof -
  from assms obtain y where y: "x = drop_natural_keys y"
    "y \<in> set (left_join (\<lambda>x. prod_key (src (fst (fst x)))) (dim_prod dims)
         (left_join (\<lambda>x. cust_key (src (fst x))) (dim_cust dims)
           (left_join (\<lambda>r. geo_key (src r)) (dim_geo dims) t)))"
    by (auto simp: enrich_def)
  then have "fst (fst (fst y)) \<in> set t"
    by (blast dest: in_left_join)
  moreover have "src x = fact_source.truncate (src (fst (fst (fst y))))"
    "fin x = fin (fst (fst (fst y)))" "ops x = ops (fst (fst (fst y)))"
    "seg x = seg (fst (fst (fst y)))" "win x = win (fst (fst (fst y)))"
    using y(1) by (simp_all add: drop_natural_keys_def split: prod.splits)
  ultimately show ?thesis by blast
qed

lemma in_window:
  "r \<in> set (window t) \<Longrightarrow>
     \<exists>d\<in>set t. src r = src d \<and> fin r = fin d \<and> ops r = ops d \<and> seg r = seg d
        \<and> win r = window_metrics_of t d"
  by (auto simp: window_def)

lemma set_final_sort: "set (final_sort t) = set t"
  by (simp add: final_sort_def)

lemma length_final_sort: "length (final_sort t) = length t"
  by (simp add: final_sort_def)

lemma in_silver_table:
  assumes "x \<in> set (silver_table dims t)"
  shows "\<exists>c\<in>set (clean t). src x = fact_source.truncate c \<and> fin x = fin (derive c)
            \<and> ops x = ops (derive c) \<and> seg x = seg (derive c)
            \<and> win x = window_metrics_of (map derive (clean t)) (derive c)"
proof -
  from assms have "x \<in> set (enrich dims (window (map derive (clean t))))"
    by (simp add: silver_table_def set_final_sort)
  then obtain r where r: "r \<in> set (window (map derive (clean t)))"
    "src x = fact_source.truncate (src r)" "fin x = fin r" "ops x = ops r" "seg x = seg r"
    "win x = win r"
    by (blast dest: in_enrich)
  from r(1) obtain d where d: "d \<in> set (map derive (clean t))" "src r = src d"
    "fin r = fin d" "ops r = ops d" "seg r = seg d"
    "win r = window_metrics_of (map derive (clean t)) d"
    by (blast dest: in_window)
  from d(1) obtain c where c: "c \<in> set (clean t)" "d = derive c" by auto
  have "src (derive c) = c" by (simp add: derive_def Let_def)
  with r d c show ?thesis by auto
qed

text \<open>
  C2. In every row of the output table, whatever the input file and the dimension
  tables, \<^verbatim>\<open>net_revenue\<close> is \<^verbatim>\<open>gross_sales - discount_amount\<close> and \<^verbatim>\<open>total_cost\<close> is
  \<^verbatim>\<open>net_revenue - order_profit_amount\<close>, as values of the columns (null for null
  operands, NaN where the subtraction is undefined).
\<close>

theorem financial_equations_hold_in_output:
  "\<forall>x\<in>set (silver_table dims t).
      net_revenue (fin x) = null_op f64_sub (gross_sales (fin x)) (discount_amount (fin x))
    \<and> total_cost (fin x) = null_op f64_sub (net_revenue (fin x)) (order_profit_amount (fin x))"
proof
  fix x assume "x \<in> set (silver_table dims t)"
  then obtain c where "fin x = fin (derive c)" by (blast dest: in_silver_table)
  then show "net_revenue (fin x) = null_op f64_sub (gross_sales (fin x)) (discount_amount (fin x))
    \<and> total_cost (fin x) = null_op f64_sub (net_revenue (fin x)) (order_profit_amount (fin x))"
    by (simp add: derive_def financial_metrics_def Let_def)
qed

theorem financial_equations_hold_in_output_witness:
  "silver_table example_dims [example_order] ! 0 \<in> set (silver_table example_dims [example_order])
   \<and> gross_sales (fin (silver_table example_dims [example_order] ! 0)) = Some (Fin 100)
   \<and> discount_amount (fin (silver_table example_dims [example_order] ! 0)) = Some (Fin 50)
   \<and> order_profit_amount (fin (silver_table example_dims [example_order] ! 0))
       = Some (Fin (- 50))
   \<and> net_revenue (fin (silver_table example_dims [example_order] ! 0))
       = null_op f64_sub (Some (Fin 100)) (Some (Fin 50))
   \<and> total_cost (fin (silver_table example_dims [example_order] ! 0))
       = null_op f64_sub (net_revenue (fin (silver_table example_dims [example_order] ! 0)))
           (Some (Fin (- 50)))"
proof -
  let ?x = "silver_table example_dims [example_order] ! 0"
  have "length (silver_table example_dims [example_order]) = 1"
    by (simp add: table_defs row_defs)
  then have m: "?x \<in> set (silver_table example_dims [example_order])"
    by simp
  have v: "gross_sales (fin ?x) = Some (Fin 100)" "discount_amount (fin ?x) = Some (Fin 50)"
    "order_profit_amount (fin ?x) = Some (Fin (- 50))"
    by (simp_all add: table_defs row_defs)
  from financial_equations_hold_in_output [of example_dims "[example_order]"] m
  have "net_revenue (fin ?x) = null_op f64_sub (gross_sales (fin ?x)) (discount_amount (fin ?x))
    \<and> total_cost (fin ?x) = null_op f64_sub (net_revenue (fin ?x)) (order_profit_amount (fin ?x))"
    by blast
  with m v show ?thesis by simp
qed

lemma distinct_fst_validate: "distinct (map fst (unique (validate t)))"
proof -
  have "\<forall>x\<in>set (unique (validate t)). snd x = valid_date_check (fst x)"
    by (auto simp: unique_def set_unique_from validate_def)
  then have "inj_on fst (set (unique (validate t)))"
    by (intro inj_onI) (metis prod.collapse)
  then show ?thesis
    by (simp add: distinct_map distinct_unique)
qed

text \<open>
  C7, as the code has it. In the table that deduplication produces no two rows agree on
  every column, and no two agree on every column of the source file
  (\<^verbatim>\<open>order_dayofweek\<close> and \<^verbatim>\<open>shipping_mode\<close> among them). With unique-keyed dimension
  tables the output has one row for each of these rows.
\<close>

theorem deduplicated_rows_are_distinct:
  "distinct (unique (validate t)) \<and> distinct (map fst (unique (validate t)))
   \<and> (distinct (map fst (dim_geo dims)) \<and> distinct (map fst (dim_cust dims))
        \<and> distinct (map fst (dim_prod dims))
      \<longrightarrow> length (silver_table dims t) = length (unique (validate t)))"
  by (simp add: distinct_unique distinct_fst_validate silver_table_def length_final_sort
        enrich_unique window_def clean_def)

theorem deduplicated_rows_are_distinct_witness:
  "distinct (map fst (dim_geo example_dims)) \<and> distinct (map fst (dim_cust example_dims))
   \<and> distinct (map fst (dim_prod example_dims))
   \<and> length (unique (validate [example_order, example_order_d])) = 2
   \<and> length (silver_table example_dims [example_order, example_order_d]) = 2"
proof -
  have h: "distinct (map fst (dim_geo example_dims))
    \<and> distinct (map fst (dim_cust example_dims)) \<and> distinct (map fst (dim_prod example_dims))"
    by (simp add: example_dims_def)
  have l: "length (unique (validate [example_order, example_order_d])) = 2"
    by (simp add: table_defs row_defs)
  from deduplicated_rows_are_distinct [of "[example_order, example_order_d]" example_dims] h l
  show ?thesis by simp
qed

text \<open>
  The claim as stated fails for a file of two orders that differ in \<^verbatim>\<open>shipping_mode\<close>
  only: both survive deduplication, the column is dropped, and the output holds the same
  row twice.
\<close>

theorem output_duplicates_counterexample:
  "example_order \<noteq> example_order_d
   \<and> length (silver_table example_dims [example_order, example_order_d]) = 2
   \<and> silver_table example_dims [example_order, example_order_d] ! 0
     = silver_table example_dims [example_order, example_order_d] ! 1"
  by (simp add: table_defs row_defs)

subsection \<open>Shares within a partition\<close>

















subsection \<open>Orders per state\<close>

lemma col_count_all: "\<forall>x\<in>set xs. f x \<noteq> None \<Longrightarrow> col_count (map f xs) = length xs"
  by (induction xs) (auto simp: col_count_def)

lemma col_count_none: "\<forall>x\<in>set xs. f x = None \<Longrightarrow> col_count (map f xs) = 0"
  by (induction xs) (auto simp: col_count_def)

lemma state_count:
  "col_count (map (\<lambda>x. order_state (src x)) (partition_of (\<lambda>x. order_state (src x)) t d))
    = (if order_state (src d) = None then 0
       else length (filter (\<lambda>x. order_state (src x) = order_state (src d)) t))"
proof (cases "order_state (src d)")
  case None
  then show ?thesis by (simp add: partition_of_def col_count_none)
next
  case (Some s)
  then show ?thesis by (simp add: partition_of_def col_count_all)
qed

text \<open>
  C9, as the code has it. For a row with an order state, \<^verbatim>\<open>state_order_count\<close> is the
  number of rows of the table with that order state; for a row whose order state is null
  it is 0, since \<^verbatim>\<open>count\<close> counts non-null values. \<^verbatim>\<open>state_density_class\<close> is Strategic
  Hub for a count above 100, Expansion Zone for a count below 10, Standard Zone
  otherwise.
\<close>

theorem state_order_count_counts_non_null:
  "\<forall>r\<in>set (window t).
      state_order_count (win r) =
        (if order_state (src r) = None then 0
         else length (filter (\<lambda>x. order_state (src x) = order_state (src r)) t))
    \<and> state_density_class (win r) =
        (if 100 < state_order_count (win r) then ''Strategic Hub''
         else if state_order_count (win r) < 10 then ''Expansion Zone''
         else ''Standard Zone'')"
proof
  fix r assume "r \<in> set (window t)"
  then obtain d where d: "d \<in> set t" "src r = src d" "win r = window_metrics_of t d"
    by (blast dest: in_window)
  then show "state_order_count (win r) =
        (if order_state (src r) = None then 0
         else length (filter (\<lambda>x. order_state (src x) = order_state (src r)) t))
    \<and> state_density_class (win r) =
        (if 100 < state_order_count (win r) then ''Strategic Hub''
         else if state_order_count (win r) < 10 then ''Expansion Zone''
         else ''Standard Zone'')"
    by (simp add: window_metrics_of_def Let_def state_count density_class_of_def when_then_def)
qed

theorem state_order_count_counts_non_null_witness:
  "window example_derived ! 0 \<in> set (window example_derived)
   \<and> order_state (src (window example_derived ! 0)) = Some ''Jalisco''
   \<and> length (filter (\<lambda>x. order_state (src x) = Some ''Jalisco'') example_derived) = 2
   \<and> state_order_count (win (window example_derived ! 0)) = 2
   \<and> state_density_class (win (window example_derived ! 0)) = ''Expansion Zone''"
proof -
  let ?r = "window example_derived ! 0"
  have "length (window example_derived) = 2"
    by (simp add: table_defs row_defs)
  then have m: "?r \<in> set (window example_derived)" by simp
  have s: "order_state (src ?r) = Some ''Jalisco''"
    "length (filter (\<lambda>x. order_state (src x) = Some ''Jalisco'') example_derived) = 2"
    by (simp_all add: table_defs row_defs)
  from state_order_count_counts_non_null [of example_derived] m
  have "state_order_count (win ?r) =
        (if order_state (src ?r) = None then 0
         else length (filter (\<lambda>x. order_state (src x) = order_state (src ?r)) example_derived))
    \<and> state_density_class (win ?r) =
        (if 100 < state_order_count (win ?r) then ''Strategic Hub''
         else if state_order_count (win ?r) < 10 then ''Expansion Zone''
         else ''Standard Zone'')"
    by blast
  with s have "state_order_count (win ?r) = 2
      \<and> state_density_class (win ?r) = ''Expansion Zone''"
    by simp
  with m s show ?thesis by blast
qed

text \<open>
  The claim as stated fails for a row with a null order state: one row of the table has
  this (null) order state, the row itself, and its \<^verbatim>\<open>state_order_count\<close> is 0.
\<close>

theorem state_order_count_null_counterexample:
  "order_state (src (example_windowed ! 1)) = None
   \<and> length (filter (\<lambda>x. order_state (src x) = order_state (src (example_windowed ! 1)))
        example_windowed) = 1
   \<and> state_order_count (win (example_windowed ! 1)) = 0"
  by (simp add: table_defs row_defs)

subsection \<open>Archival by the batch coordinator\<close>

lemma bronze_process_file:
  "bronze (process_file env w g) f = (if f = g \<and> succeeds env w g then None else bronze w f)"
  by (simp add: process_file_def succeeds_def Let_def split: option.splits csv_file.splits)

lemma succeeds_cong: "bronze w' f = bronze w f \<Longrightarrow> succeeds env w' f = succeeds env w f"
  by (simp add: succeeds_def)

lemma succeeds_bronze: "succeeds env w f \<Longrightarrow> bronze w f \<noteq> None"
  by (auto simp add: succeeds_def split: option.splits)

lemma run_batch_Cons: "run_batch env (g # fs) w = run_batch env fs (process_file env w g)"
  by (simp add: run_batch_def)

lemma bronze_run_batch:
  "bronze (run_batch env fs w) f = (if f \<in> set fs \<and> succeeds env w f then None else bronze w f)"
proof (induction fs arbitrary: w)
  case Nil
  then show ?case by (simp add: run_batch_def)
next
  case (Cons g fs)
  let ?w = "process_file env w g"
  show ?case
  proof (cases "f = g \<and> succeeds env w g")
    case True
    then have n: "bronze ?w f = None" by (simp add: bronze_process_file)
    then have "\<not> succeeds env ?w f" using succeeds_bronze by blast
    have "bronze (run_batch env (g # fs) w) f = bronze (run_batch env fs ?w) f"
      by (simp add: run_batch_Cons)
    also have "\<dots> = (if f \<in> set fs \<and> succeeds env ?w f then None else bronze ?w f)"
      by (rule Cons.IH)
    also have "\<dots> = None"
      using n by simp
    finally show ?thesis using True by simp
  next
    case False
    then have b: "bronze ?w f = bronze w f" by (auto simp add: bronze_process_file)
    then have "succeeds env ?w f = succeeds env w f" by (rule succeeds_cong)
    with b False show ?thesis by (auto simp add: run_batch_Cons Cons.IH)
  qed
qed

lemma silver_process_file_mono:
  "k \<in> dom (silver w) \<Longrightarrow> k \<in> dom (silver (process_file env w g))"
  by (auto simp add: process_file_def Let_def split: option.splits csv_file.splits)

lemma archive_process_file_mono:
  "k \<in> dom (archive w) \<Longrightarrow> k \<in> dom (archive (process_file env w g))"
  by (auto simp add: process_file_def Let_def split: option.splits csv_file.splits)

lemma silver_run_batch_mono:
  "k \<in> dom (silver w) \<Longrightarrow> k \<in> dom (silver (run_batch env fs w))"
proof (induction fs arbitrary: w)
  case Nil
  then show ?case by (simp add: run_batch_def)
next
  case (Cons g fs)
  from Cons.prems have "k \<in> dom (silver (process_file env w g))"
    by (rule silver_process_file_mono)
  then show ?case unfolding run_batch_Cons by (rule Cons.IH)
qed

lemma archive_run_batch_mono:
  "k \<in> dom (archive w) \<Longrightarrow> k \<in> dom (archive (run_batch env fs w))"
proof (induction fs arbitrary: w)
  case Nil
  then show ?case by (simp add: run_batch_def)
next
  case (Cons g fs)
  from Cons.prems have "k \<in> dom (archive (process_file env w g))"
    by (rule archive_process_file_mono)
  then show ?case unfolding run_batch_Cons by (rule Cons.IH)
qed

lemma process_file_succeeds:
  "succeeds env w g \<Longrightarrow>
     output_name g \<in> dom (silver (process_file env w g))
     \<and> archive_name g (clock env g) \<in> dom (archive (process_file env w g))"
  by (auto simp add: process_file_def succeeds_def Let_def split: option.splits csv_file.splits)

lemma run_batch_succeeds:
  "f \<in> set fs \<Longrightarrow> succeeds env w f \<Longrightarrow>
     output_name f \<in> dom (silver (run_batch env fs w))
     \<and> archive_name f (clock env f) \<in> dom (archive (run_batch env fs w))"
proof (induction fs arbitrary: w)
  case Nil
  then show ?case by simp
next
  case (Cons g fs)
  show ?case
  proof (cases "g = f")
    case True
    with Cons.prems(2) show ?thesis
      by (simp add: run_batch_Cons process_file_succeeds silver_run_batch_mono
            archive_run_batch_mono)
  next
    case False
    then have "bronze (process_file env w g) f = bronze w f"
      by (simp add: bronze_process_file)
    then have "succeeds env (process_file env w g) f"
      using Cons.prems(2) succeeds_cong by blast
    moreover from False Cons.prems(1) have "f \<in> set fs" by simp
    ultimately show ?thesis by (simp add: run_batch_Cons Cons.IH)
  qed
qed

lemma process_file_early_failure:
  "bronze w f = Some c \<Longrightarrow>
   (\<forall>t. c \<noteq> Table t) \<or> dimensions env = None \<or> \<not> writable env (output_name f) \<Longrightarrow>
   process_file env w f = w"
  by (auto simp add: process_file_def Let_def split: option.splits csv_file.splits)

lemma process_file_move_failure:
  "bronze w f = Some (Table t) \<Longrightarrow> dimensions env = Some dims \<Longrightarrow>
   writable env (output_name f) \<Longrightarrow> \<not> movable env f \<Longrightarrow>
   process_file env w f = w\<lparr>silver := (silver w)(output_name f \<mapsto> silver_table dims t)\<rparr>"
  by (simp add: process_file_def Let_def)

lemma example_names:
  "output_name ''orders.csv'' = ''Fact_orders.parquet''"
  "archive_name ''orders.csv'' ''20240101_120000'' = ''orders_20240101_120000.csv''"
  by (simp_all add: output_name_def archive_name_def splitext_def Let_def)

text \<open>
  C5, as the code has it. For a file of the batch, whatever happens to the other files:
  after the batch the file has left the Bronze folder exactly when it could be read, the
  dimension tables could be read, the output could be written and the file could be
  moved; then the output is in the Silver folder and the file is in the archive;
  otherwise the file is in the Bronze folder as it was. When a call up to the write
  fails, processing the file changes nothing. When only the move fails, the output has
  been written and the file stays where it was, unarchived.
\<close>

theorem archived_iff_every_step_succeeds:
  "f \<in> set csv_files \<and> bronze w f = Some c \<longrightarrow>
     (bronze (run_batch env csv_files w) f = None \<longleftrightarrow>
        (\<exists>t. c = Table t) \<and> dimensions env \<noteq> None \<and> writable env (output_name f)
        \<and> movable env f)
   \<and> (bronze (run_batch env csv_files w) f = None \<longrightarrow>
        silver (run_batch env csv_files w) (output_name f) \<noteq> None
        \<and> archive (run_batch env csv_files w) (archive_name f (clock env f)) \<noteq> None)
   \<and> (bronze (run_batch env csv_files w) f \<noteq> None \<longrightarrow>
        bronze (run_batch env csv_files w) f = Some c)
   \<and> ((\<forall>t. c \<noteq> Table t) \<or> dimensions env = None \<or> \<not> writable env (output_name f)
        \<longrightarrow> process_file env w f = w)
   \<and> ((\<exists>t. c = Table t) \<and> dimensions env \<noteq> None \<and> writable env (output_name f)
        \<and> \<not> movable env f
        \<longrightarrow> bronze (process_file env w f) f = Some c
          \<and> archive (process_file env w f) = archive w
          \<and> silver (process_file env w f) (output_name f) \<noteq> None)"
proof (intro impI, elim conjE)
  assume f: "f \<in> set csv_files" and c: "bronze w f = Some c"
  have s: "succeeds env w f \<longleftrightarrow>
      (\<exists>t. c = Table t) \<and> dimensions env \<noteq> None \<and> writable env (output_name f) \<and> movable env f"
    using c by (auto simp add: succeeds_def split: csv_file.splits)
  have b: "bronze (run_batch env csv_files w) f = (if succeeds env w f then None else Some c)"
    using f c by (simp add: bronze_run_batch)
  show "(bronze (run_batch env csv_files w) f = None \<longleftrightarrow>
        (\<exists>t. c = Table t) \<and> dimensions env \<noteq> None \<and> writable env (output_name f)
        \<and> movable env f)
   \<and> (bronze (run_batch env csv_files w) f = None \<longrightarrow>
        silver (run_batch env csv_files w) (output_name f) \<noteq> None
        \<and> archive (run_batch env csv_files w) (archive_name f (clock env f)) \<noteq> None)
   \<and> (bronze (run_batch env csv_files w) f \<noteq> None \<longrightarrow>
        bronze (run_batch env csv_files w) f = Some c)
   \<and> ((\<forall>t. c \<noteq> Table t) \<or> dimensions env = None \<or> \<not> writable env (output_name f)
        \<longrightarrow> process_file env w f = w)
   \<and> ((\<exists>t. c = Table t) \<and> dimensions env \<noteq> None \<and> writable env (output_name f)
        \<and> \<not> movable env f
        \<longrightarrow> bronze (process_file env w f) f = Some c
          \<and> archive (process_file env w f) = archive w
          \<and> silver (process_file env w f) (output_name f) \<noteq> None)"
  proof (intro conjI)
    show "bronze (run_batch env csv_files w) f = None \<longleftrightarrow>
        (\<exists>t. c = Table t) \<and> dimensions env \<noteq> None \<and> writable env (output_name f)
        \<and> movable env f"
      using s by (simp add: b)
    show "bronze (run_batch env csv_files w) f = None \<longrightarrow>
        silver (run_batch env csv_files w) (output_name f) \<noteq> None
        \<and> archive (run_batch env csv_files w) (archive_name f (clock env f)) \<noteq> None"
      using f run_batch_succeeds [of f csv_files env w] by (auto simp add: b split: if_splits)
    show "bronze (run_batch env csv_files w) f \<noteq> None \<longrightarrow>
        bronze (run_batch env csv_files w) f = Some c"
      by (simp add: b)
    show "(\<forall>t. c \<noteq> Table t) \<or> dimensions env = None \<or> \<not> writable env (output_name f)
        \<longrightarrow> process_file env w f = w"
      using c process_file_early_failure by blast
    show "(\<exists>t. c = Table t) \<and> dimensions env \<noteq> None \<and> writable env (output_name f)
        \<and> \<not> movable env f
        \<longrightarrow> bronze (process_file env w f) f = Some c
          \<and> archive (process_file env w f) = archive w
          \<and> silver (process_file env w f) (output_name f) \<noteq> None"
      using c by (auto simp add: process_file_move_failure)
  qed
qed

theorem archived_iff_every_step_succeeds_witness:
  "''orders.csv'' \<in> set [''broken.csv'', ''orders.csv'']
   \<and> bronze example_lake ''orders.csv'' = Some (Table [example_order])
   \<and> bronze (run_batch example_env [''broken.csv'', ''orders.csv''] example_lake) ''orders.csv''
       = None
   \<and> silver (run_batch example_env [''broken.csv'', ''orders.csv''] example_lake)
       ''Fact_orders.parquet'' \<noteq> None
   \<and> archive (run_batch example_env [''broken.csv'', ''orders.csv''] example_lake)
       ''orders_20240101_120000.csv'' \<noteq> None
   \<and> ''broken.csv'' \<in> set [''broken.csv'', ''orders.csv'']
   \<and> bronze example_lake ''broken.csv'' = Some Unparsable
   \<and> bronze (run_batch example_env [''broken.csv'', ''orders.csv''] example_lake) ''broken.csv''
       = Some Unparsable"
proof -
  let ?w = "run_batch example_env [''broken.csv'', ''orders.csv''] example_lake"
  have o: "''orders.csv'' \<in> set [''broken.csv'', ''orders.csv'']"
    "bronze example_lake ''orders.csv'' = Some (Table [example_order])"
    by (simp_all add: example_lake_def)
  have e: "dimensions example_env \<noteq> None" "writable example_env (output_name ''orders.csv'')"
    "movable example_env ''orders.csv''" "clock example_env ''orders.csv'' = ''20240101_120000''"
    by (simp_all add: example_env_def)
  from archived_iff_every_step_succeeds
         [of "''orders.csv''" "[''broken.csv'', ''orders.csv'']" example_lake
             "Table [example_order]" example_env] o e
  have r: "bronze ?w ''orders.csv'' = None
      \<and> silver ?w ''Fact_orders.parquet'' \<noteq> None
      \<and> archive ?w ''orders_20240101_120000.csv'' \<noteq> None"
    by (simp add: example_names)
  have b: "''broken.csv'' \<in> set [''broken.csv'', ''orders.csv'']"
    "bronze example_lake ''broken.csv'' = Some Unparsable"
    by (simp_all add: example_lake_def)
  from archived_iff_every_step_succeeds
         [of "''broken.csv''" "[''broken.csv'', ''orders.csv'']" example_lake
             Unparsable example_env] b
  have u: "bronze ?w ''broken.csv'' = Some Unparsable"
    by simp
  from o r b u show ?thesis by blast
qed

text \<open>
  The claim as stated fails when the output can be written and the source file cannot be
  moved: the output artifact is then in the Silver folder, and the file is still in the
  Bronze folder, with nothing in the archive.
\<close>

theorem written_but_not_archived_counterexample:
  "silver (run_batch example_env_stuck [''orders.csv''] example_lake) ''Fact_orders.parquet''
      \<noteq> None
   \<and> bronze (run_batch example_env_stuck [''orders.csv''] example_lake) ''orders.csv''
      = Some (Table [example_order])
   \<and> archive (run_batch example_env_stuck [''orders.csv''] example_lake) = Map.empty"
  by (simp add: run_batch_def process_file_def example_lake_def example_env_stuck_def
        example_env_def example_names Let_def)

end
